theory Spec2Isabelle
  imports Complex_Main "HOL-Library.AList"
begin

section \<open>Shared data: errors, vectors, unit cells\<close>

text \<open>
  Python exceptions are values. The payload of \<open>ValueError\<close> and \<open>KeyError\<close> is the
  message (the key, for \<open>KeyError\<close>) given at the raise site.
\<close>

datatype error =
    ValueError string
  | TypeError
  | KeyError string
  | AttributeError

text \<open>
  A position is a triple of coordinates; a unit cell (\<open>dimensions\<close>) is the six scalars
  \<open>Lx, Ly, Lz, alpha, beta, gamma\<close>.
\<close>

type_synonym 'a vec3 = "'a \<times> 'a \<times> 'a"

type_synonym 'a box = "'a \<times> 'a \<times> 'a \<times> 'a \<times> 'a \<times> 'a"

section \<open>distances.py\<close>

text \<open>
  An AtomGroup, as far as \<open>distances.py\<close> reads it: the positions of its atoms (an array
  of shape \<open>(N, 3)\<close>) and the unit cell, which is \<open>None\<close> when there is none. The atom
  count \<open>n_atoms\<close> is the number of rows of \<open>positions\<close>. The scalar type is left open:
  the module itself performs no arithmetic on coordinates other than the subtraction
  \<open>a.positions - b.positions\<close>.
\<close>

record 'a atomgroup =
  positions :: "'a vec3 list"
  dimensions :: "'a box option"

definition n_atoms :: "'a atomgroup \<Rightarrow> nat" where
  "n_atoms g = length (positions g)"

text \<open>
  The three routines imported from numpy and \<open>MDAnalysis.lib.distances\<close> are not part
  of the module. They are parameters of the embedding, collected in one record:
  \<open>allclose\<close> for \<open>np.allclose\<close> on two unit cells, \<open>calc_bonds\<close> for
  \<open>calc_bonds(a, b, box=...)\<close> and \<open>minimize_vectors\<close> for
  \<open>minimize_vectors(diff_vec, box)\<close>.
\<close>

record 'a library =
  allclose :: "'a box \<Rightarrow> 'a box \<Rightarrow> bool"
  calc_bonds :: "'a atomgroup \<Rightarrow> 'a atomgroup \<Rightarrow> 'a box option \<Rightarrow> 'a list"
  minimize_vectors :: "'a vec3 list \<Rightarrow> 'a box \<Rightarrow> 'a vec3 list"

text \<open>
  \<open>_check_groups(a, b)\<close>: the size test, then the three-way test on the unit cells, in
  the order of the source.
\<close>

definition check_groups :: "'a library \<Rightarrow> 'a atomgroup \<Rightarrow> 'a atomgroup \<Rightarrow> error + unit" where
  "check_groups lib a b =
     (if n_atoms a \<noteq> n_atoms b then
        Inl (ValueError ''AtomGroups a and b contain different number of atoms'')
      else if dimensions a = None \<and> dimensions b = None then
        Inr ()
      else if (dimensions a = None) \<noteq> (dimensions b = None) then
        Inl (ValueError ''One AtomGroup does not have unit cell information'')
      else
        (case (dimensions a, dimensions b) of
           (Some da, Some db) \<Rightarrow>
             if \<not> allclose lib da db then
               Inl (ValueError ''Unit cell dimensions differ between groups.'')
             else Inr ()
         | _ \<Rightarrow> Inr ()))"

text \<open>\<open>minimage_distance(a, b)\<close>.\<close>

definition minimage_distance :: "'a library \<Rightarrow> 'a atomgroup \<Rightarrow> 'a atomgroup \<Rightarrow> error + 'a list" where
  "minimage_distance lib a b =
     (case check_groups lib a b of
        Inl e \<Rightarrow> Inl e
      | Inr _ \<Rightarrow> Inr (calc_bonds lib a b (dimensions a)))"

text \<open>
  The array subtraction \<open>a.positions - b.positions\<close> on two arrays of the same shape
  \<open>(N, 3)\<close>: row by row, component by component.
\<close>

fun vec_sub :: "('a::minus) vec3 \<Rightarrow> 'a vec3 \<Rightarrow> 'a vec3" where
  "vec_sub (x1, y1, z1) (x2, y2, z2) = (x1 - x2, y1 - y2, z1 - z2)"

definition positions_sub :: "('a::minus) vec3 list \<Rightarrow> 'a vec3 list \<Rightarrow> 'a vec3 list" where
  "positions_sub ps qs = map2 vec_sub ps qs"

text \<open>\<open>minimage_difference_vector(a, b)\<close>.\<close>

definition minimage_difference_vector ::
    "('a::minus) library \<Rightarrow> 'a atomgroup \<Rightarrow> 'a atomgroup \<Rightarrow> error + 'a vec3 list" where
  "minimage_difference_vector lib a b =
     (case check_groups lib a b of
        Inl e \<Rightarrow> Inl e
      | Inr _ \<Rightarrow>
          (let diff_vec = positions_sub (positions a) (positions b) in
           case dimensions a of
             Some box \<Rightarrow> Inr (minimize_vectors lib diff_vec box)
           | None \<Rightarrow> Inr diff_vec))"

subsection \<open>Concrete library and groups for the examples\<close>

text \<open>
  An instance of the library record for evaluating the module on concrete inputs: the
  tolerance test \<open>absolute(x - y) <= atol + rtol * absolute(y)\<close> that numpy documents for
  \<open>allclose\<close>, with its default \<open>rtol = 1e-05\<close> and \<open>atol = 1e-08\<close>, over the reals
  and on all six scalars; the two distance routines are stand-ins.
\<close>

definition np_allclose :: "real box \<Rightarrow> real box \<Rightarrow> bool" where
  "np_allclose x y =
     (case (x, y) of
        ((x1, x2, x3, x4, x5, x6), (y1, y2, y3, y4, y5, y6)) \<Rightarrow>
          list_all (\<lambda>(p, q). \<bar>p - q\<bar> \<le> 1 / 10 ^ 8 + (1 / 10 ^ 5) * \<bar>q\<bar>)
            [(x1, y1), (x2, y2), (x3, y3), (x4, y4), (x5, y5), (x6, y6)])"

definition example_lib :: "real library" where
  "example_lib =
     \<lparr>allclose = np_allclose, calc_bonds = (\<lambda>a b box. []), minimize_vectors = (\<lambda>v box. v)\<rparr>"

definition example_group :: "real box option \<Rightarrow> real atomgroup" where
  "example_group box = \<lparr>positions = [(1, 2, 3)], dimensions = box\<rparr>"

section \<open>info.py\<close>

subsection \<open>Python values and objects\<close>

text \<open>
  The values that end up in the metadata dictionary and in table rows: Python integers
  (atom and frame counts, the literal \<open>0\<close> of the box-less case), floats (idealised as
  reals) and strings (labels).
\<close>

datatype pyval = PInt int | PFloat real | PStr string

text \<open>
  A Universe, as far as \<open>info.py\<close> reads it: \<open>u.dimensions\<close> (\<open>None\<close> without a
  regular box), \<open>u.atoms.n_atoms\<close>, \<open>u.trajectory.n_frames\<close>,
  \<open>u.trajectory.totaltime\<close> and \<open>u.trajectory.dt\<close>.
\<close>

record universe =
  u_dimensions :: "real box option"
  u_n_atoms :: int
  u_n_frames :: int
  u_totaltime :: real
  u_dt :: real

text \<open>
  Universes and dictionaries are mutable objects, passed by reference. They live in a
  store: an address is an index into the list of allocated objects, and a new object is
  appended. A dictionary keeps its items in insertion order. The state also holds
  standard output, as the sequence of tables printed so far.
\<close>

type_synonym addr = nat

type_synonym dict = "(string \<times> pyval) list"

datatype obj = Universe universe | Dict dict

record table =
  field_names :: "string list"
  rows :: "pyval list list"

record state =
  heap :: "obj list"
  stdout :: "table list"

definition lookup :: "state \<Rightarrow> addr \<Rightarrow> obj option" where
  "lookup s p = (if p < length (heap s) then Some (heap s ! p) else None)"

definition alloc :: "state \<Rightarrow> obj \<Rightarrow> addr \<times> state" where
  "alloc s x = (length (heap s), s\<lparr>heap := heap s @ [x]\<rparr>)"

definition store :: "state \<Rightarrow> addr \<Rightarrow> obj \<Rightarrow> state" where
  "store s p x = s\<lparr>heap := (heap s)[p := x]\<rparr>"

subsection \<open>Python and prettytable operations used by the module\<close>

text \<open>\<open>len(x)\<close>: \<open>None\<close> has no length.\<close>

definition py_len :: "'a list option \<Rightarrow> error + nat" where
  "py_len xs = (case xs of None \<Rightarrow> Inl TypeError | Some l \<Rightarrow> Inr (length l))"

text \<open>Unpacking \<open>u.dimensions\<close> into six names: \<open>None\<close> cannot be unpacked.\<close>

definition unpack6 :: "real box option \<Rightarrow> error + real box" where
  "unpack6 dims = (case dims of None \<Rightarrow> Inl TypeError | Some b \<Rightarrow> Inr b)"

text \<open>True division \<open>x / n\<close> by the integer literal \<open>n\<close> (it is never zero in the module).\<close>

fun py_truediv :: "pyval \<Rightarrow> int \<Rightarrow> error + pyval" where
  "py_truediv (PInt i) n = Inr (PFloat (of_int i / of_int n))"
| "py_truediv (PFloat x) n = Inr (PFloat (x / of_int n))"
| "py_truediv (PStr _) n = Inl TypeError"

text \<open>\<open>data[key]\<close>, \<open>data[key] = v\<close> and \<open>data[key] /= n\<close> on a dictionary reference.\<close>

definition getitem :: "state \<Rightarrow> addr \<Rightarrow> string \<Rightarrow> error + pyval" where
  "getitem s p k =
     (case lookup s p of
        Some (Dict d) \<Rightarrow> (case map_of d k of None \<Rightarrow> Inl (KeyError k) | Some v \<Rightarrow> Inr v)
      | _ \<Rightarrow> Inl TypeError)"

definition setitem :: "state \<Rightarrow> addr \<Rightarrow> string \<Rightarrow> pyval \<Rightarrow> (error + unit) \<times> state" where
  "setitem s p k v =
     (case lookup s p of
        Some (Dict d) \<Rightarrow> (Inr (), store s p (Dict (AList.update k v d)))
      | _ \<Rightarrow> (Inl TypeError, s))"

definition itruediv_item :: "state \<Rightarrow> addr \<Rightarrow> string \<Rightarrow> int \<Rightarrow> (error + unit) \<times> state" where
  "itruediv_item s p k n =
     (case getitem s p k of
        Inl e \<Rightarrow> (Inl e, s)
      | Inr v \<Rightarrow>
          (case py_truediv v n of
             Inl e \<Rightarrow> (Inl e, s)
           | Inr v' \<Rightarrow> setitem s p k v'))"

text \<open>The comprehension \<open>[data[key] for key in keys]\<close>.\<close>

fun getitems :: "state \<Rightarrow> addr \<Rightarrow> string list \<Rightarrow> error + pyval list" where
  "getitems s p [] = Inr []"
| "getitems s p (k # ks) =
     (case getitem s p k of
        Inl e \<Rightarrow> Inl e
      | Inr v \<Rightarrow> (case getitems s p ks of Inl e \<Rightarrow> Inl e | Inr vs \<Rightarrow> Inr (v # vs)))"

text \<open>
  \<open>PrettyTable.add_row(row)\<close>: once field names are set, a row with another number of
  values is refused.
\<close>

definition add_row :: "table \<Rightarrow> pyval list \<Rightarrow> error + table" where
  "add_row t row =
     (if field_names t \<noteq> [] \<and> length row \<noteq> length (field_names t) then
        Inl (ValueError ''Row has incorrect number of values'')
      else Inr (t\<lparr>rows := rows t @ [row]\<rparr>))"

subsection \<open>extract\<close>

text \<open>
  \<open>extract(u)\<close>: the \<open>try\<close> unpacks the unit cell, the handler catches \<open>TypeError\<close>
  only and substitutes six integer zeros; the dictionary is a new object. Reading an
  attribute of something that is not a Universe is an \<open>AttributeError\<close>.
\<close>

definition "extract" :: "state \<Rightarrow> addr \<Rightarrow> (error + addr) \<times> state" where
  "extract s u =
     (case lookup s u of
        Some (Universe U) \<Rightarrow>
          (case (case unpack6 (u_dimensions U) of
                   Inr (Lx, Ly, Lz, alpha, beta, gamma) \<Rightarrow>
                     Inr (PFloat Lx, PFloat Ly, PFloat Lz, PFloat alpha, PFloat beta, PFloat gamma)
                 | Inl TypeError \<Rightarrow>
                     Inr (PInt 0, PInt 0, PInt 0, PInt 0, PInt 0, PInt 0)
                 | Inl e \<Rightarrow> Inl e) of
             Inl e \<Rightarrow> (Inl e, s)
           | Inr (Lx, Ly, Lz, alpha, beta, gamma) \<Rightarrow>
               (let data =
                  [(''n_atoms'', PInt (u_n_atoms U)),
                   (''Lx'', Lx),
                   (''Ly'', Ly),
                   (''Lz'', Lz),
                   (''alpha'', alpha),
                   (''beta'', beta),
                   (''gamma'', gamma),
                   (''n_frames'', PInt (u_n_frames U)),
                   (''totaltime'', PFloat (u_totaltime U)),
                   (''dt'', PFloat (u_dt U))]
                in case alloc s (Dict data) of (p, s') \<Rightarrow> (Inr p, s')))
      | _ \<Rightarrow> (Inl AttributeError, s))"

subsection \<open>summary\<close>

definition data_column_keys :: "string list" where
  "data_column_keys =
     [''n_atoms'', ''Lx'', ''Ly'', ''Lz'', ''alpha'', ''beta'', ''gamma'',
      ''n_frames'', ''totaltime'', ''dt'']"

text \<open>The \<open>A\<close> with ring of the length unit is the code point \<open>0xC5\<close>.\<close>

definition data_column_names :: "string list" where
  "data_column_names =
     [''n_atoms'', ''Lx/'' @ [CHR 0xC5], ''Ly/'' @ [CHR 0xC5], ''Lz/'' @ [CHR 0xC5],
      ''alpha'', ''beta'', ''gamma'', ''n_frames'', ''totaltime/ns'', ''dt/ps'']"

text \<open>
  The body of \<open>for u, label in zip(universes, labels)\<close>. An exception leaves the loop
  with the store as it is at that point.
\<close>

fun summary_loop ::
    "state \<Rightarrow> table \<Rightarrow> (addr \<times> string option) list \<Rightarrow> (error + table) \<times> state" where
  "summary_loop s t [] = (Inr t, s)"
| "summary_loop s t ((u, label) # rest) =
     (case extract s u of
        (Inl e, s1) \<Rightarrow> (Inl e, s1)
      | (Inr data, s1) \<Rightarrow>
          (case itruediv_item s1 data ''totaltime'' 1000 of
             (Inl e, s2) \<Rightarrow> (Inl e, s2)
           | (Inr _, s2) \<Rightarrow>
               (case getitems s2 data data_column_keys of
                  Inl e \<Rightarrow> (Inl e, s2)
                | Inr row \<Rightarrow>
                    (case add_row t (case label of None \<Rightarrow> row | Some l \<Rightarrow> PStr l # row) of
                       Inl e \<Rightarrow> (Inl e, s2)
                     | Inr t' \<Rightarrow> summary_loop s2 t' rest))))"

text \<open>
  \<open>summary(*universes, labels=None)\<close>. An unset \<open>labels\<close> is \<open>None\<close>; a given one is a
  list whose entries are strings or \<open>None\<close>. The statements keep the order of the
  source: the length test, then the test for \<open>None\<close>, the table, the loop, the print.
  The message of the \<open>ValueError\<close> is the fixed part of the source's formatted string.
\<close>

definition summary ::
    "state \<Rightarrow> addr list \<Rightarrow> string option list option \<Rightarrow> (error + unit) \<times> state" where
  "summary s universes labels =
     (case py_len labels of
        Inl e \<Rightarrow> (Inl e, s)
      | Inr n \<Rightarrow>
          if n \<noteq> length universes then
            (Inl (ValueError ''labels must contain one label per universe''), s)
          else
            (let (labels', column_names) =
                   (case labels of
                      None \<Rightarrow> (replicate (length universes) None, data_column_names)
                    | Some ls \<Rightarrow> (ls, ''simulation'' # data_column_names));
                 t = \<lparr>field_names = column_names, rows = []\<rparr>
             in case summary_loop s t (zip universes labels') of
                  (Inl e, s') \<Rightarrow> (Inl e, s')
                | (Inr t', s') \<Rightarrow> (Inr (), s'\<lparr>stdout := stdout s' @ [t']\<rparr>)))"

subsection \<open>Notions for the statements\<close>

text \<open>
  The row the specification describes for a universe, without the label: atom count,
  three edge lengths, three angles (six integer zeros without a regular box), frame
  count, total time divided by 1000, frame spacing.
\<close>

definition box_cells :: "universe \<Rightarrow> pyval list" where
  "box_cells U =
     (case u_dimensions U of
        None \<Rightarrow> [PInt 0, PInt 0, PInt 0, PInt 0, PInt 0, PInt 0]
      | Some (Lx, Ly, Lz, alpha, beta, gamma) \<Rightarrow>
          [PFloat Lx, PFloat Ly, PFloat Lz, PFloat alpha, PFloat beta, PFloat gamma])"

definition expected_row :: "universe \<Rightarrow> pyval list" where
  "expected_row U =
     PInt (u_n_atoms U) # box_cells U @
     [PInt (u_n_frames U), PFloat (u_totaltime U / 1000), PFloat (u_dt U)]"


text \<open>
  A store with two universes for the examples: one with a triclinic unit cell and one
  without a regular box (3341 atoms, 98 frames).
\<close>

definition example_state :: state where
  "example_state =
     \<lparr>heap =
        [Universe \<lparr>u_dimensions = Some (80, 80, 80, 60, 60, 90), u_n_atoms = 47681,
                   u_n_frames = 10, u_totaltime = 900, u_dt = 100\<rparr>,
         Universe \<lparr>u_dimensions = None, u_n_atoms = 3341,
                   u_n_frames = 98, u_totaltime = 97, u_dt = 1\<rparr>],
      stdout = []\<rparr>"

section \<open>Properties of distances.py\<close>

lemma check_groups_sizes:
  "n_atoms a \<noteq> n_atoms b \<Longrightarrow>
   check_groups lib a b = Inl (ValueError ''AtomGroups a and b contain different number of atoms'')"
  by (simp add: check_groups_def)

text \<open>
  C2. For two groups of equal size without unit cell, \<open>minimage_difference_vector\<close>
  returns \<open>a.positions - b.positions\<close>: one row per atom, each row the componentwise
  difference of the two positions. The result does not depend on the library routines,
  so no periodic correction takes part in it.
\<close>

theorem difference_vector_no_box:
  assumes "n_atoms a = n_atoms b" and "dimensions a = None" and "dimensions b = None"
  shows "\<exists>r. minimage_difference_vector lib a b = Inr r
           \<and> length r = n_atoms a
           \<and> (\<forall>i < n_atoms a.
                 r ! i = (fst (positions a ! i) - fst (positions b ! i),
                          fst (snd (positions a ! i)) - fst (snd (positions b ! i)),
                          snd (snd (positions a ! i)) - snd (snd (positions b ! i))))"
proof -
  have vs: "vec_sub p q = (fst p - fst q, fst (snd p) - fst (snd q), snd (snd p) - snd (snd q))"
    for p q :: "'a vec3"
    by (cases p; cases q) simp
  have "check_groups lib a b = Inr ()"
    using assms by (simp add: check_groups_def)
  then have "minimage_difference_vector lib a b = Inr (positions_sub (positions a) (positions b))"
    using assms(2) by (simp add: minimage_difference_vector_def)
  moreover have "length (positions_sub (positions a) (positions b)) = n_atoms a"
    using assms(1) by (simp add: positions_sub_def n_atoms_def)
  moreover have "positions_sub (positions a) (positions b) ! i =
      (fst (positions a ! i) - fst (positions b ! i),
       fst (snd (positions a ! i)) - fst (snd (positions b ! i)),
       snd (snd (positions a ! i)) - snd (snd (positions b ! i)))" if "i < n_atoms a" for i
    using that assms(1) by (simp add: positions_sub_def n_atoms_def vs)
  ultimately show ?thesis by blast
qed

theorem difference_vector_no_box_witness:
  "n_atoms \<lparr>positions = [(1, 2, 3), (4, 5, 6 :: int)], dimensions = None\<rparr>
     = n_atoms \<lparr>positions = [(0, 0, 1), (9, 9, 9 :: int)], dimensions = None\<rparr>
   \<and> dimensions \<lparr>positions = [(1, 2, 3), (4, 5, 6 :: int)], dimensions = None\<rparr> = None
   \<and> dimensions \<lparr>positions = [(0, 0, 1), (9, 9, 9 :: int)], dimensions = None\<rparr> = None
   \<and> (\<exists>r. minimage_difference_vector
              \<lparr>allclose = (\<lambda>x y. False), calc_bonds = (\<lambda>a b box. []),
               minimize_vectors = (\<lambda>v box. [])\<rparr>
              \<lparr>positions = [(1, 2, 3), (4, 5, 6 :: int)], dimensions = None\<rparr>
              \<lparr>positions = [(0, 0, 1), (9, 9, 9)], dimensions = None\<rparr> = Inr r
            \<and> length r = 2 \<and> r ! 0 = (1, 2, 2) \<and> r ! 1 = (- 5, - 4, - 3))"
proof -
  let ?a = "\<lparr>positions = [(1, 2, 3), (4, 5, 6 :: int)], dimensions = None\<rparr>"
  let ?b = "\<lparr>positions = [(0, 0, 1), (9, 9, 9 :: int)], dimensions = None\<rparr>"
  let ?lib = "\<lparr>allclose = (\<lambda>x y :: int box. False),
               calc_bonds = (\<lambda>(a :: int atomgroup) (b :: int atomgroup) box. []),
               minimize_vectors = (\<lambda>v box. [])\<rparr>"
  have n: "n_atoms ?a = 2" by (simp add: n_atoms_def)
  have h1: "n_atoms ?a = n_atoms ?b" by (simp add: n_atoms_def)
  have h2: "dimensions ?a = None" and h3: "dimensions ?b = None" by simp_all
  from difference_vector_no_box [OF h1 h2 h3, of ?lib]
  obtain r where r: "minimage_difference_vector ?lib ?a ?b = Inr r" "length r = n_atoms ?a"
    and el: "\<forall>i < n_atoms ?a.
                 r ! i = (fst (positions ?a ! i) - fst (positions ?b ! i),
                          fst (snd (positions ?a ! i)) - fst (snd (positions ?b ! i)),
                          snd (snd (positions ?a ! i)) - snd (snd (positions ?b ! i)))"
    by blast
  from el n have "r ! 0 = (1, 2, 2)" by simp
  moreover from el n have "r ! 1 = (- 5, - 4, - 3)" by simp
  ultimately show ?thesis using r n h1 by simp
qed

text \<open>
  C3. For two groups with different atom counts, both operations raise the \<open>ValueError\<close>
  of the size test. The outcome is the same for every library record: neither
  \<open>allclose\<close> nor a distance routine is consulted, and nothing but the error is
  returned. The groups are arguments passed by value; the module has no assignment to
  them.
\<close>

theorem size_mismatch_raises:
  assumes "n_atoms a \<noteq> n_atoms b"
  shows "minimage_distance lib a b =
           Inl (ValueError ''AtomGroups a and b contain different number of atoms'')
       \<and> minimage_difference_vector lib a b =
           Inl (ValueError ''AtomGroups a and b contain different number of atoms'')"
  using assms by (simp add: minimage_distance_def minimage_difference_vector_def check_groups_sizes)

theorem size_mismatch_raises_witness:
  "n_atoms \<lparr>positions = [(1, 2, 3), (4, 5, 6 :: int)], dimensions = None\<rparr>
     \<noteq> n_atoms \<lparr>positions = [(0, 0, 1 :: int)], dimensions = None\<rparr>
   \<and> minimage_distance
        \<lparr>allclose = (\<lambda>x y. True), calc_bonds = (\<lambda>a b box. [0]),
         minimize_vectors = (\<lambda>v box. v)\<rparr>
        \<lparr>positions = [(1, 2, 3), (4, 5, 6 :: int)], dimensions = None\<rparr>
        \<lparr>positions = [(0, 0, 1)], dimensions = None\<rparr>
      = Inl (ValueError ''AtomGroups a and b contain different number of atoms'')
   \<and> minimage_difference_vector
        \<lparr>allclose = (\<lambda>x y. True), calc_bonds = (\<lambda>a b box. [0]),
         minimize_vectors = (\<lambda>v box. v)\<rparr>
        \<lparr>positions = [(1, 2, 3), (4, 5, 6 :: int)], dimensions = None\<rparr>
        \<lparr>positions = [(0, 0, 1)], dimensions = None\<rparr>
      = Inl (ValueError ''AtomGroups a and b contain different number of atoms'')"
proof -
  let ?a = "\<lparr>positions = [(1, 2, 3), (4, 5, 6 :: int)], dimensions = None\<rparr>"
  let ?b = "\<lparr>positions = [(0, 0, 1 :: int)], dimensions = None\<rparr>"
  have h: "n_atoms ?a \<noteq> n_atoms ?b" by (simp add: n_atoms_def)
  from size_mismatch_raises [OF h] h show ?thesis by simp
qed

text \<open>
  C4. For two groups of equal size: when exactly one has a unit cell, both operations
  raise the \<open>ValueError\<close> about missing unit cell information; when both have one and
  \<open>allclose\<close> rejects the pair, both raise the \<open>ValueError\<close> about differing unit
  cells; when both are absent, or both are present and \<open>allclose\<close> accepts the pair,
  neither raises, and the results are those of the library routines (the raw difference
  without a unit cell). In the example, cells that differ by a relative \<open>1e-7\<close> in one
  edge are accepted by the documented tolerance test and a difference of \<open>1\<close> is rejected.
\<close>

theorem box_check:
  assumes "n_atoms a = n_atoms b"
  shows "((dimensions a = None) \<noteq> (dimensions b = None) \<longrightarrow>
            minimage_distance lib a b =
              Inl (ValueError ''One AtomGroup does not have unit cell information'')
          \<and> minimage_difference_vector lib a b =
              Inl (ValueError ''One AtomGroup does not have unit cell information''))
       \<and> (\<forall>da db. dimensions a = Some da \<and> dimensions b = Some db \<and> \<not> allclose lib da db \<longrightarrow>
            minimage_distance lib a b =
              Inl (ValueError ''Unit cell dimensions differ between groups.'')
          \<and> minimage_difference_vector lib a b =
              Inl (ValueError ''Unit cell dimensions differ between groups.''))
       \<and> (dimensions a = None \<and> dimensions b = None \<longrightarrow>
            minimage_distance lib a b = Inr (calc_bonds lib a b None)
          \<and> minimage_difference_vector lib a b =
              Inr (positions_sub (positions a) (positions b)))
       \<and> (\<forall>da db. dimensions a = Some da \<and> dimensions b = Some db \<and> allclose lib da db \<longrightarrow>
            minimage_distance lib a b = Inr (calc_bonds lib a b (Some da))
          \<and> minimage_difference_vector lib a b =
              Inr (minimize_vectors lib (positions_sub (positions a) (positions b)) da))"
  using assms
  by (auto simp add: minimage_distance_def minimage_difference_vector_def check_groups_def)

theorem box_check_witness:
  "(minimage_distance example_lib (example_group (Some (80, 80, 80, 60, 60, 90))) (example_group None)
      = Inl (ValueError ''One AtomGroup does not have unit cell information'')
    \<and> minimage_difference_vector example_lib (example_group None)
        (example_group (Some (80, 80, 80, 60, 60, 90)))
      = Inl (ValueError ''One AtomGroup does not have unit cell information''))
   \<and> (\<not> allclose example_lib (80, 80, 80, 60, 60, 90) (81, 80, 80, 60, 60, 90)
    \<and> minimage_distance example_lib (example_group (Some (80, 80, 80, 60, 60, 90)))
        (example_group (Some (81, 80, 80, 60, 60, 90)))
      = Inl (ValueError ''Unit cell dimensions differ between groups.''))
   \<and> (minimage_difference_vector example_lib (example_group None) (example_group None)
      = Inr [(0, 0, 0)])
   \<and> (allclose example_lib (80, 80, 80, 60, 60, 90) (80.000008, 80, 80, 60, 60, 90)
    \<and> minimage_difference_vector example_lib (example_group (Some (80, 80, 80, 60, 60, 90)))
        (example_group (Some (80.000008, 80, 80, 60, 60, 90)))
      = Inr [(0, 0, 0)])"
proof -
  let ?b1 = "(80, 80, 80, 60, 60, 90) :: real box"
  let ?b2 = "(80.000008, 80, 80, 60, 60, 90) :: real box"
  let ?b3 = "(81, 80, 80, 60, 60, 90) :: real box"
  have n: "n_atoms (example_group x) = n_atoms (example_group y)" for x y
    by (simp add: example_group_def n_atoms_def)
  have c2: "\<not> allclose example_lib ?b1 ?b3"
    by (simp add: example_lib_def np_allclose_def)
  have c4: "allclose example_lib ?b1 ?b2"
    by (simp add: example_lib_def np_allclose_def)
  note w1 = box_check [OF n, of "Some ?b1" None example_lib]
  note w1' = box_check [OF n, of None "Some ?b1" example_lib]
  note w2 = box_check [OF n, of "Some ?b1" "Some ?b3" example_lib]
  note w3 = box_check [OF n, of None None example_lib]
  note w4 = box_check [OF n, of "Some ?b1" "Some ?b2" example_lib]
  have d: "dimensions (example_group x) = x" for x
    by (simp add: example_group_def)
  have p: "positions_sub (positions (example_group x)) (positions (example_group y)) = [(0, 0, 0)]"
    for x y
    by (simp add: example_group_def positions_sub_def)
  have m: "minimize_vectors example_lib v box = v" for v box
    by (simp add: example_lib_def)
  from w1 have a1: "minimage_distance example_lib (example_group (Some ?b1)) (example_group None)
      = Inl (ValueError ''One AtomGroup does not have unit cell information'')"
    by (simp add: d)
  from w1' have a1': "minimage_difference_vector example_lib (example_group None)
        (example_group (Some ?b1))
      = Inl (ValueError ''One AtomGroup does not have unit cell information'')"
    by (simp add: d)
  from w2 c2 have a2: "minimage_distance example_lib (example_group (Some ?b1))
        (example_group (Some ?b3))
      = Inl (ValueError ''Unit cell dimensions differ between groups.'')"
    by (simp add: d)
  from w3 have a3: "minimage_difference_vector example_lib (example_group None) (example_group None)
      = Inr [(0, 0, 0)]"
    by (simp add: d p)
  from w4 c4 have a4: "minimage_difference_vector example_lib (example_group (Some ?b1))
        (example_group (Some ?b2)) = Inr [(0, 0, 0)]"
    by (simp add: d p m)
  from a1 a1' a2 a3 a4 c2 c4 show ?thesis by blast
qed

section \<open>Properties of info.py\<close>

subsection \<open>One call of extract, one pass of the loop\<close>

lemma extract_universe:
  assumes "lookup s u = Some (Universe U)"
  shows "extract s u =
           (Inr (length (heap s)),
            s\<lparr>heap := heap s @
              [Dict (zip data_column_keys
                 (PInt (u_n_atoms U) # box_cells U @
                  [PInt (u_n_frames U), PFloat (u_totaltime U), PFloat (u_dt U)]))]\<rparr>)"
proof (cases "u_dimensions U")
  case None
  with assms show ?thesis
    by (simp add: extract_def unpack6_def alloc_def box_cells_def data_column_keys_def)
next
  case (Some b)
  obtain Lx Ly Lz alpha beta gamma where "b = (Lx, Ly, Lz, alpha, beta, gamma)"
    by (cases b) auto
  with Some assms show ?thesis
    by (simp add: extract_def unpack6_def alloc_def box_cells_def data_column_keys_def)
qed

lemma extract_other:
  assumes "\<nexists>U. lookup s u = Some (Universe U)"
  shows "extract s u = (Inl AttributeError, s)"
  using assms by (auto simp add: extract_def split: option.splits obj.splits)

lemma box_cells_length: "length (box_cells U) = 6"
  by (auto simp add: box_cells_def split: option.splits)

lemma box_cells_shape: "\<exists>c1 c2 c3 c4 c5 c6. box_cells U = [c1, c2, c3, c4, c5, c6]"
  by (auto simp add: box_cells_def split: option.splits)

lemma expected_row_length: "length (expected_row U) = 10"
  by (simp add: expected_row_def box_cells_length)

lemma itruediv_totaltime:
  assumes "lookup s u = Some (Universe U)" and "extract s u = (Inr p, s1)"
  shows "itruediv_item s1 p ''totaltime'' 1000 =
           (Inr (), s\<lparr>heap := heap s @ [Dict (zip data_column_keys (expected_row U))]\<rparr>)"
proof -
  obtain c1 c2 c3 c4 c5 c6 where c: "box_cells U = [c1, c2, c3, c4, c5, c6]"
    using box_cells_shape by blast
  from assms extract_universe [OF assms(1)] have p: "p = length (heap s)"
    and s1: "s1 = s\<lparr>heap := heap s @
              [Dict (zip data_column_keys
                 (PInt (u_n_atoms U) # box_cells U @
                  [PInt (u_n_frames U), PFloat (u_totaltime U), PFloat (u_dt U)]))]\<rparr>"
    by simp_all
  show ?thesis
    unfolding p s1
    by (simp add: itruediv_item_def getitem_def setitem_def lookup_def store_def c
        data_column_keys_def expected_row_def)
qed

lemma getitems_row:
  "getitems (s\<lparr>heap := heap s @ [Dict (zip data_column_keys (expected_row U))]\<rparr>)
     (length (heap s)) data_column_keys = Inr (expected_row U)"
proof -
  obtain c1 c2 c3 c4 c5 c6 where c: "box_cells U = [c1, c2, c3, c4, c5, c6]"
    using box_cells_shape by blast
  show ?thesis
    by (simp add: getitem_def lookup_def c data_column_keys_def expected_row_def)
qed

lemma summary_loop_universe:
  assumes "lookup s u = Some (Universe U)"
  shows "summary_loop s t ((u, label) # rest) =
           (case add_row t (case label of None \<Rightarrow> expected_row U | Some l \<Rightarrow> PStr l # expected_row U) of
              Inl e \<Rightarrow> (Inl e, s\<lparr>heap := heap s @ [Dict (zip data_column_keys (expected_row U))]\<rparr>)
            | Inr t' \<Rightarrow>
                summary_loop (s\<lparr>heap := heap s @ [Dict (zip data_column_keys (expected_row U))]\<rparr>)
                  t' rest)"
proof -
  let ?s1 = "s\<lparr>heap := heap s @
              [Dict (zip data_column_keys
                 (PInt (u_n_atoms U) # box_cells U @
                  [PInt (u_n_frames U), PFloat (u_totaltime U), PFloat (u_dt U)]))]\<rparr>"
  have e: "extract s u = (Inr (length (heap s)), ?s1)"
    by (rule extract_universe [OF assms])
  have d: "itruediv_item ?s1 (length (heap s)) ''totaltime'' 1000 =
           (Inr (), s\<lparr>heap := heap s @ [Dict (zip data_column_keys (expected_row U))]\<rparr>)"
    by (rule itruediv_totaltime [OF assms e])
  show ?thesis
    by (simp only: summary_loop.simps e d getitems_row prod.case sum.case)
qed

lemma summary_loop_other:
  assumes "\<nexists>U. lookup s u = Some (Universe U)"
  shows "summary_loop s t ((u, label) # rest) = (Inl AttributeError, s)"
  by (simp add: extract_other [OF assms])

lemma lookup_extended:
  "lookup (s\<lparr>heap := heap s @ [Dict d]\<rparr>) p = Some (Universe U) \<longleftrightarrow> lookup s p = Some (Universe U)"
  by (auto simp add: lookup_def nth_append split: if_splits)

lemma add_row_labelled:
  assumes "length (field_names t) = 11"
  shows "add_row t (PStr l # expected_row U) = Inr (t\<lparr>rows := rows t @ [PStr l # expected_row U]\<rparr>)"
  using assms by (simp add: add_row_def expected_row_length)

lemma add_row_unlabelled:
  assumes "length (field_names t) = 11"
  shows "add_row t (expected_row U) = Inl (ValueError ''Row has incorrect number of values'')"
  using assms by (auto simp add: add_row_def expected_row_length)

subsection \<open>The loop as a whole\<close>

declare summary_loop.simps(2) [simp del]

lemma data_column_names_length [simp]: "length data_column_names = 10"
  by (simp add: data_column_names_def)

lemma summary_loop_state:
  "\<exists>xs. heap (snd (summary_loop s t zs)) = heap s @ xs
       \<and> (\<forall>x \<in> set xs. \<exists>d. x = Dict d)
       \<and> stdout (snd (summary_loop s t zs)) = stdout s"
proof (induction zs arbitrary: s t)
  case Nil
  show ?case by simp
next
  case (Cons z zs)
  obtain u label where z: "z = (u, label)" by (cases z)
  show ?case
  proof (cases "\<exists>U. lookup s u = Some (Universe U)")
    case False
    then show ?thesis by (simp add: z summary_loop_other)
  next
    case True
    then obtain U where U: "lookup s u = Some (Universe U)" by blast
    let ?d = "Dict (zip data_column_keys (expected_row U))"
    let ?s2 = "s\<lparr>heap := heap s @ [?d]\<rparr>"
    let ?row = "case label of None \<Rightarrow> expected_row U | Some l \<Rightarrow> PStr l # expected_row U"
    show ?thesis
    proof (cases "add_row t ?row")
      case (Inl e)
      then have "snd (summary_loop s t (z # zs)) = ?s2"
        by (simp add: z summary_loop_universe [OF U])
      then have "heap (snd (summary_loop s t (z # zs))) = heap s @ [?d]"
        and "stdout (snd (summary_loop s t (z # zs))) = stdout s"
        by simp_all
      then show ?thesis by (intro exI [of _ "[?d]"]) simp
    next
      case (Inr t1)
      from Cons.IH [of ?s2 t1] obtain xs where xs:
        "heap (snd (summary_loop ?s2 t1 zs)) = heap ?s2 @ xs"
        "\<forall>x \<in> set xs. \<exists>d. x = Dict d"
        "stdout (snd (summary_loop ?s2 t1 zs)) = stdout ?s2"
        by blast
      from Inr have "summary_loop s t (z # zs) = summary_loop ?s2 t1 zs"
        by (simp add: z summary_loop_universe [OF U])
      with xs have "heap (snd (summary_loop s t (z # zs))) = heap s @ (?d # xs)"
        and "stdout (snd (summary_loop s t (z # zs))) = stdout s"
        by simp_all
      with xs(2) show ?thesis by (intro exI [of _ "?d # xs"]) simp
    qed
  qed
qed

lemma summary_loop_success:
  assumes "summary_loop s t zs = (Inr t', s')" and "length (field_names t) = 11"
  shows "field_names t' = field_names t
       \<and> (\<exists>new. rows t' = rows t @ new
            \<and> list_all2 (\<lambda>z row. \<exists>U l. lookup s (fst z) = Some (Universe U) \<and> snd z = Some l
                                  \<and> row = PStr l # expected_row U) zs new)"
  using assms
proof (induction zs arbitrary: s t)
  case Nil
  then show ?case by simp
next
  case (Cons z zs)
  obtain u label where z: "z = (u, label)" by (cases z)
  from Cons.prems(1) have "\<exists>U. lookup s u = Some (Universe U)"
    using summary_loop_other [of s u t label zs] by (auto simp add: z)
  then obtain U where U: "lookup s u = Some (Universe U)" by blast
  let ?s2 = "s\<lparr>heap := heap s @ [Dict (zip data_column_keys (expected_row U))]\<rparr>"
  have "label \<noteq> None"
  proof
    assume "label = None"
    with Cons.prems show False
      by (simp add: z summary_loop_universe [OF U] add_row_unlabelled)
  qed
  then obtain l where l: "label = Some l" by blast
  let ?t1 = "t\<lparr>rows := rows t @ [PStr l # expected_row U]\<rparr>"
  from Cons.prems have run: "summary_loop ?s2 ?t1 zs = (Inr t', s')"
    by (simp add: z l summary_loop_universe [OF U] add_row_labelled)
  have "length (field_names ?t1) = 11" using Cons.prems(2) by simp
  from Cons.IH [OF run this] obtain new where
    fn: "field_names t' = field_names ?t1" and
    rw: "rows t' = rows ?t1 @ new" and
    al: "list_all2 (\<lambda>z row. \<exists>U l. lookup ?s2 (fst z) = Some (Universe U) \<and> snd z = Some l
                                  \<and> row = PStr l # expected_row U) zs new"
    by blast
  from al have al': "list_all2 (\<lambda>z row. \<exists>U l. lookup s (fst z) = Some (Universe U) \<and> snd z = Some l
                                  \<and> row = PStr l # expected_row U) zs new"
    by (rule list_all2_mono) (simp add: lookup_extended)
  have "rows t' = rows t @ ((PStr l # expected_row U) # new)" using rw by simp
  moreover have "list_all2 (\<lambda>z row. \<exists>U l. lookup s (fst z) = Some (Universe U) \<and> snd z = Some l
                                  \<and> row = PStr l # expected_row U) (z # zs) ((PStr l # expected_row U) # new)"
    using al' U l by (simp add: z)
  ultimately show ?case using fn by auto
qed

lemma summary_loop_accepts:
  assumes "length (field_names t) = 11"
    and "\<forall>z \<in> set zs. (\<exists>U. lookup s (fst z) = Some (Universe U)) \<and> snd z \<noteq> None"
  shows "\<exists>t' s'. summary_loop s t zs = (Inr t', s')"
  using assms
proof (induction zs arbitrary: s t)
  case Nil
  show ?case by simp
next
  case (Cons z zs)
  obtain u label where z: "z = (u, label)" by (cases z)
  from Cons.prems(2) obtain U l where U: "lookup s u = Some (Universe U)" and l: "label = Some l"
    by (auto simp add: z)
  let ?s2 = "s\<lparr>heap := heap s @ [Dict (zip data_column_keys (expected_row U))]\<rparr>"
  let ?t1 = "t\<lparr>rows := rows t @ [PStr l # expected_row U]\<rparr>"
  have step: "summary_loop s t (z # zs) = summary_loop ?s2 ?t1 zs"
    by (simp add: z l summary_loop_universe [OF U] add_row_labelled [OF Cons.prems(1)])
  have "length (field_names ?t1) = 11" using Cons.prems(1) by simp
  moreover have "\<forall>z \<in> set zs. (\<exists>U. lookup ?s2 (fst z) = Some (Universe U)) \<and> snd z \<noteq> None"
    using Cons.prems(2) by (simp add: lookup_extended)
  ultimately show ?case unfolding step by (rule Cons.IH)
qed

lemma summary_given:
  assumes "length ls = length us"
  shows "summary s us (Some ls) =
           (case summary_loop s \<lparr>field_names = ''simulation'' # data_column_names, rows = []\<rparr>
                   (zip us ls) of
              (Inl e, s') \<Rightarrow> (Inl e, s')
            | (Inr t', s') \<Rightarrow> (Inr (), s'\<lparr>stdout := stdout s' @ [t']\<rparr>))"
  using assms by (simp add: summary_def py_len_def)






subsection \<open>The example store\<close>

lemma example_universes:
  "lookup example_state 0 =
     Some (Universe \<lparr>u_dimensions = Some (80, 80, 80, 60, 60, 90), u_n_atoms = 47681,
                     u_n_frames = 10, u_totaltime = 900, u_dt = 100\<rparr>)"
  "lookup example_state 1 =
     Some (Universe \<lparr>u_dimensions = None, u_n_atoms = 3341, u_n_frames = 98,
                     u_totaltime = 97, u_dt = 1\<rparr>)"
  by (simp_all add: lookup_def example_state_def)

lemma summary_example_accepted:
  "summary example_state [0, 1] (Some [Some ''Adk GROMACS'', Some ''ADK DIMS'']) =
     (Inr (), snd (summary example_state [0, 1] (Some [Some ''Adk GROMACS'', Some ''ADK DIMS''])))"
proof -
  let ?t = "\<lparr>field_names = ''simulation'' # data_column_names, rows = []\<rparr>"
  let ?zs = "zip [0 :: addr, 1] [Some ''Adk GROMACS'', Some ''ADK DIMS'']"
  have f: "length (field_names ?t) = 11" by simp
  have "\<forall>z \<in> set ?zs. (\<exists>U. lookup example_state (fst z) = Some (Universe U)) \<and> snd z \<noteq> None"
    using example_universes by simp
  from summary_loop_accepts [OF f this] obtain t' s1 where
    "summary_loop example_state ?t ?zs = (Inr t', s1)"
    by blast
  then show ?thesis by (simp add: summary_given)
qed


subsection \<open>The claims\<close>



text \<open>
  C6. When the labels list and the universes differ in length, \<open>summary\<close> raises the
  \<open>ValueError\<close> of the length test and the state is the one before the call: no
  dictionary has been created by \<open>extract\<close> and nothing has been printed.
\<close>

theorem summary_length_mismatch:
  assumes "length ls \<noteq> length universes"
  shows "summary s universes (Some ls) =
           (Inl (ValueError ''labels must contain one label per universe''), s)"
  using assms by (simp add: summary_def py_len_def)

theorem summary_length_mismatch_witness:
  "length [Some ''Adk GROMACS''] \<noteq> length [0 :: addr, 1]
   \<and> summary example_state [0, 1] (Some [Some ''Adk GROMACS'']) =
       (Inl (ValueError ''labels must contain one label per universe''), example_state)"
proof -
  have h: "length [Some ''Adk GROMACS''] \<noteq> length [0 :: addr, 1]" by simp
  from summary_length_mismatch [OF h, of example_state] h show ?thesis by simp
qed

text \<open>
  C7. With \<open>labels\<close> unset, \<open>len(labels)\<close> in the length test raises \<open>TypeError\<close>, for
  every tuple of universes and in every state, and the state is unchanged. The test
  \<open>labels is None\<close> comes after it, so its first branch is never reached by such a call.
\<close>

theorem summary_unset_labels:
  "summary s universes None = (Inl TypeError, s)"
  by (simp add: summary_def py_len_def)

text \<open>
  C8, as stated, fails: a labels list of the right length that mixes a string and
  \<open>None\<close> is refused. The table has the column \<open>simulation\<close> as soon as labels are
  given, the row of an entry \<open>None\<close> gets no label, and \<open>add_row\<close> rejects the row of
  ten values for eleven field names.
\<close>

theorem summary_mixed_labels_counterexample:
  "length [0 :: addr, 1] = length [Some ''Adk GROMACS'', None]
   \<and> fst (summary example_state [0, 1] (Some [Some ''Adk GROMACS'', None])) =
       Inl (ValueError ''Row has incorrect number of values'')"
proof -
  let ?U0 = "\<lparr>u_dimensions = Some (80, 80, 80, 60, 60, 90), u_n_atoms = 47681,
                   u_n_frames = 10, u_totaltime = 900, u_dt = 100\<rparr>"
  let ?U1 = "\<lparr>u_dimensions = None, u_n_atoms = 3341, u_n_frames = 98,
             u_totaltime = 97, u_dt = 1\<rparr>"
  let ?t = "\<lparr>field_names = ''simulation'' # data_column_names, rows = []\<rparr>"
  let ?t1 = "?t\<lparr>rows := rows ?t @ [PStr ''Adk GROMACS'' # expected_row ?U0]\<rparr>"
  let ?s1 = "example_state\<lparr>heap := heap example_state @
               [Dict (zip data_column_keys (expected_row ?U0))]\<rparr>"
  let ?s2 = "?s1\<lparr>heap := heap ?s1 @ [Dict (zip data_column_keys (expected_row ?U1))]\<rparr>"
  have f: "length (field_names ?t) = 11" and f1: "length (field_names ?t1) = 11"
    by simp_all
  have u0: "lookup example_state 0 = Some (Universe ?U0)"
    by (simp add: lookup_def example_state_def)
  have u1: "lookup ?s1 1 = Some (Universe ?U1)"
    by (simp add: lookup_def example_state_def)
  have "summary_loop ?s1 ?t1 [(1, None)] =
          (Inl (ValueError ''Row has incorrect number of values''), ?s2)"
    by (simp only: summary_loop_universe [OF u1] option.case add_row_unlabelled [OF f1] sum.case)
  moreover have "summary_loop example_state ?t [(0, Some ''Adk GROMACS''), (1, None)] =
          summary_loop ?s1 ?t1 [(1, None)]"
    by (simp only: summary_loop_universe [OF u0] option.case add_row_labelled [OF f] sum.case)
  ultimately have "summary_loop example_state ?t (zip [0, 1] [Some ''Adk GROMACS'', None]) =
          (Inl (ValueError ''Row has incorrect number of values''), ?s2)"
    by simp
  then have "summary example_state [0, 1] (Some [Some ''Adk GROMACS'', None]) =
          (Inl (ValueError ''Row has incorrect number of values''), ?s2)"
    by (simp add: summary_given)
  then show ?thesis by simp
qed

text \<open>
  C8, amended. For universes and a labels list of the same length in which every label is
  a string, \<open>summary\<close> does not raise and prints one table with one row per universe.
\<close>

theorem summary_string_labels:
  assumes "length ls = length us"
    and "\<forall>u \<in> set us. \<exists>U. lookup s u = Some (Universe U)"
    and "\<forall>l \<in> set ls. l \<noteq> None"
  shows "\<exists>t s'. summary s us (Some ls) = (Inr (), s')
           \<and> stdout s' = stdout s @ [t]
           \<and> length (rows t) = length us"
proof -
  let ?t = "\<lparr>field_names = ''simulation'' # data_column_names, rows = []\<rparr>"
  have f: "length (field_names ?t) = 11" by simp
  have "\<forall>z \<in> set (zip us ls). (\<exists>U. lookup s (fst z) = Some (Universe U)) \<and> snd z \<noteq> None"
    using assms(2,3) by (auto dest: set_zip_leftD set_zip_rightD)
  from summary_loop_accepts [OF f this] obtain t' s1 where
    run: "summary_loop s ?t (zip us ls) = (Inr t', s1)"
    by blast
  from summary_loop_success [OF run f] obtain new where
    "rows t' = rows ?t @ new" and "length (zip us ls) = length new"
    by (auto dest: list_all2_lengthD)
  then have len: "length (rows t') = length us" using assms(1) by simp
  from summary_loop_state [of s ?t "zip us ls"] run have out: "stdout s1 = stdout s"
    by auto
  have "summary s us (Some ls) = (Inr (), s1\<lparr>stdout := stdout s1 @ [t']\<rparr>)"
    by (simp add: summary_given [OF assms(1)] run)
  with len out show ?thesis by simp
qed

theorem summary_string_labels_witness:
  "length [Some ''Adk GROMACS'', Some ''ADK DIMS''] = length [0 :: addr, 1]
   \<and> (\<exists>U. lookup example_state 0 = Some (Universe U))
   \<and> (\<exists>U. lookup example_state 1 = Some (Universe U))
   \<and> Some ''Adk GROMACS'' \<noteq> None \<and> Some ''ADK DIMS'' \<noteq> None
   \<and> (\<exists>t s'. summary example_state [0, 1] (Some [Some ''Adk GROMACS'', Some ''ADK DIMS'']) =
                 (Inr (), s')
            \<and> stdout s' = stdout example_state @ [t]
            \<and> length (rows t) = length [0 :: addr, 1])"
proof -
  have h1: "length [Some ''Adk GROMACS'', Some ''ADK DIMS''] = length [0 :: addr, 1]" by simp
  have u0: "\<exists>U. lookup example_state 0 = Some (Universe U)"
    and u1: "\<exists>U. lookup example_state 1 = Some (Universe U)"
    using example_universes by simp_all
  from u0 u1 have h2: "\<forall>u \<in> set [0, 1]. \<exists>U. lookup example_state u = Some (Universe U)"
    by simp
  have l0: "Some ''Adk GROMACS'' \<noteq> None" and l1: "Some ''ADK DIMS'' \<noteq> None"
    by simp_all
  then have h3: "\<forall>l \<in> set [Some ''Adk GROMACS'', Some ''ADK DIMS'']. l \<noteq> None" by simp
  from h1 u0 u1 l0 l1 summary_string_labels [OF h1 h2 h3] show ?thesis by (intro conjI)
qed

text \<open>
  C9. Whenever \<open>summary\<close> returns, labels were given, one per universe, and exactly one
  table has been printed. Its header is \<open>simulation\<close> followed by the ten data column
  names, and its \<open>i\<close>-th row is, in this order: the label, the atom count, the three edge
  lengths and the three angles, the frame count, the total time divided by 1000, and the
  frame spacing of the \<open>i\<close>-th universe.
\<close>

theorem summary_rows:
  assumes "summary s us labels = (Inr (), s')"
  shows "\<exists>ls t. labels = Some ls \<and> length ls = length us
           \<and> stdout s' = stdout s @ [t]
           \<and> field_names t = ''simulation'' # data_column_names
           \<and> length (rows t) = length us
           \<and> (\<forall>i < length us. \<exists>U l.
                 lookup s (us ! i) = Some (Universe U) \<and> ls ! i = Some l
               \<and> rows t ! i =
                   PStr l # PInt (u_n_atoms U) # box_cells U @
                   [PInt (u_n_frames U), PFloat (u_totaltime U / 1000), PFloat (u_dt U)])"
proof -
  from assms obtain ls where ls: "labels = Some ls"
    by (cases labels) (auto simp add: summary_def py_len_def)
  from assms have len: "length ls = length us"
    unfolding ls by (auto simp add: summary_def py_len_def split: if_splits)
  let ?t = "\<lparr>field_names = ''simulation'' # data_column_names, rows = []\<rparr>"
  have f: "length (field_names ?t) = 11" by simp
  from assms obtain t' s1 where run: "summary_loop s ?t (zip us ls) = (Inr t', s1)"
    and s': "s' = s1\<lparr>stdout := stdout s1 @ [t']\<rparr>"
    unfolding ls summary_given [OF len]
    by (cases "summary_loop s ?t (zip us ls)") (auto split: sum.splits)
  from summary_loop_state [of s ?t "zip us ls"] run have out: "stdout s1 = stdout s"
    by auto
  from summary_loop_success [OF run f] obtain new where
    fn: "field_names t' = field_names ?t" and rw: "rows t' = rows ?t @ new" and
    al: "list_all2 (\<lambda>z row. \<exists>U l. lookup s (fst z) = Some (Universe U) \<and> snd z = Some l
                                  \<and> row = PStr l # expected_row U) (zip us ls) new"
    by blast
  from al have ln: "length new = length us"
    using len by (auto dest: list_all2_lengthD)
  have rows: "\<exists>U l. lookup s (us ! i) = Some (Universe U) \<and> ls ! i = Some l
               \<and> rows t' ! i =
                   PStr l # PInt (u_n_atoms U) # box_cells U @
                   [PInt (u_n_frames U), PFloat (u_totaltime U / 1000), PFloat (u_dt U)]"
    if "i < length us" for i
  proof -
    from that len have "i < length (zip us ls)" by simp
    from list_all2_nthD [OF al this] that len rw show ?thesis
      by (simp add: expected_row_def)
  qed
  have "stdout s' = stdout s @ [t']" using s' out by simp
  moreover have "field_names t' = ''simulation'' # data_column_names" using fn by simp
  moreover have "length (rows t') = length us" using rw ln by simp
  ultimately show ?thesis using ls len rows by (intro exI [of _ ls] exI [of _ t'] conjI allI impI)
qed

theorem summary_rows_witness:
  "summary example_state [0, 1] (Some [Some ''Adk GROMACS'', Some ''ADK DIMS'']) =
     (Inr (), snd (summary example_state [0, 1] (Some [Some ''Adk GROMACS'', Some ''ADK DIMS''])))
   \<and> (\<exists>ls t. Some [Some ''Adk GROMACS'', Some ''ADK DIMS''] = Some ls
         \<and> length ls = length [0 :: addr, 1]
         \<and> stdout (snd (summary example_state [0, 1]
               (Some [Some ''Adk GROMACS'', Some ''ADK DIMS''])))
             = stdout example_state @ [t]
         \<and> field_names t = ''simulation'' # data_column_names
         \<and> length (rows t) = length [0 :: addr, 1]
         \<and> (\<forall>i < length [0 :: addr, 1]. \<exists>U l.
               lookup example_state ([0, 1] ! i) = Some (Universe U) \<and> ls ! i = Some l
             \<and> rows t ! i =
                 PStr l # PInt (u_n_atoms U) # box_cells U @
                 [PInt (u_n_frames U), PFloat (u_totaltime U / 1000), PFloat (u_dt U)]))"
  using summary_example_accepted summary_rows [OF summary_example_accepted] by (rule conjI)



end
